theory Spec2Isabelle
  imports Main "HOL-Library.Sublist"
begin

section \<open>The data model (part-4/app.py, lines 34-70)\<close>

text \<open>
  The two model classes become records. A column that the schema allows to hold NULL, and
  every attribute of an object that the session has not flushed yet, is an \<open>option\<close>:
  \<open>None\<close> is Python's \<open>None\<close>. The declarations \<open>nullable=False\<close> and \<open>unique=True\<close> are
  constraints that the storage engine checks when a row is written (see \<open>book_row_ok\<close>).
  A \<open>datetime\<close> is a point in time counted in some unit; only its presence matters here.
\<close>

type_synonym datetime = nat

record author =
  aid :: int
  name :: "string option"
  bio :: "string option"
  city :: "string option"

record book =
  bid :: int
  title :: "string option"
  year :: "int option"
  isbn :: "string option"
  created_at :: "datetime option"
  author_id :: "int option"

text \<open>The database: the rows of the two tables, in insertion order.\<close>

record store =
  authors :: "author list"
  books :: "book list"

definition empty_store :: store where
  "empty_store = \<lparr>authors = [], books = []\<rparr>"

text \<open>What \<open>to_dict\<close> returns (lines 43-50 and 62-70).\<close>

record author_dict =
  ad_id :: int
  ad_name :: "string option"
  ad_bio :: "string option"
  ad_city :: "string option"
  ad_books :: "string option list"

record book_dict =
  bd_id :: int
  bd_title :: "string option"
  bd_author_id :: "int option"
  bd_year :: "int option"
  bd_isbn :: "string option"
  bd_created_at :: "datetime option"

section \<open>Requests and responses\<close>

text \<open>
  The body of a request, as \<open>request.get_json()\<close> hands it to the view: \<open>None\<close> when the
  result is Python's \<open>None\<close>, otherwise a dict. Of a dict only the keys that the views read
  are kept, each at the type of the column it feeds. A key is absent, present with the
  value \<open>null\<close>, or present with a value. A body that is JSON but no dict, and a value of
  another JSON type than its column, are not in this type: what the driver and the
  engine make of them is not code of this application.
\<close>

datatype 'a field = Absent | Null | Val 'a

record author_data =
  j_name :: "string field"
  j_bio :: "string field"
  j_city :: "string field"

record book_data =
  j_title :: "string field"
  j_author_id :: "int field"
  j_year :: "int field"
  j_isbn :: "string field"

text \<open>\<open>key in data\<close>, and \<open>data.get(key)\<close> (which is also \<open>data[key]\<close> for a key that is there).\<close>

fun present :: "'a field \<Rightarrow> bool" where
  "present Absent = False"
| "present Null = True"
| "present (Val v) = True"

fun dget :: "'a field \<Rightarrow> 'a option" where
  "dget Absent = None"
| "dget Null = None"
| "dget (Val v) = Some v"

text \<open>Python's truth value of an optional string and of an optional integer.\<close>

fun truthy_str :: "string option \<Rightarrow> bool" where
  "truthy_str None = False"
| "truthy_str (Some s) = (s \<noteq> [])"

fun truthy_int :: "int option \<Rightarrow> bool" where
  "truthy_int None = False"
| "truthy_int (Some n) = (n \<noteq> 0)"

datatype exn = TypeError | ValueError | OverflowError | IntegrityError

text \<open>
  The payload that a view passes to \<open>jsonify\<close>, without its \<open>success\<close> flag: the keys
  \<open>count\<close> and \<open>authors\<close>, \<open>author\<close>, \<open>count\<close> and \<open>books\<close>, \<open>book\<close>, \<open>message\<close>, or \<open>error\<close>.
\<close>

datatype body =
    AuthorsBody nat "author_dict list"
  | AuthorBody author_dict
  | BooksBody nat "book_dict list"
  | BookBody book_dict
  | MessageBody string
  | ErrorBody string

text \<open>
  How a view ends:
  \<^item> \<open>Json status success payload\<close>: it returns \<open>jsonify({'success': success, ...}), status\<close>;
  \<^item> \<open>Abort status\<close>: \<open>get_or_404\<close> called \<open>abort(status)\<close>. The application registers no
    error handler, so the view produces no body of its own and the framework answers
    with its default page for that status;
  \<^item> \<open>Unhandled e\<close>: the exception \<open>e\<close> leaves the view.
\<close>

datatype response =
    Json nat bool body
  | Abort nat
  | Unhandled exn

fun status_of :: "response \<Rightarrow> nat option" where
  "status_of (Json st ok b) = Some st"
| "status_of (Abort st) = Some st"
| "status_of (Unhandled e) = None"

text \<open>The envelope \<open>{success: false, error: <message>}\<close>.\<close>

fun is_error_envelope :: "response \<Rightarrow> bool" where
  "is_error_envelope (Json st ok (ErrorBody msg)) = (\<not> ok)"
| "is_error_envelope r = False"

section \<open>The storage layer that the views call\<close>

text \<open>
  The database driver binds a Python integer as a signed 64-bit value and raises
  \<open>OverflowError\<close> for any other.
\<close>

definition int64 :: "int \<Rightarrow> bool" where
  "int64 n \<longleftrightarrow> - (2 ^ 63) \<le> n \<and> n < 2 ^ 63"

fun int64_opt :: "int option \<Rightarrow> bool" where
  "int64_opt None = True"
| "int64_opt (Some n) = int64 n"

text \<open>
  An integer primary key that the insert leaves out is set by the engine to the largest
  id of the table plus one, and to 1 in an empty table (the ids it hands out are positive).
  What the engine does once a table holds the largest 64-bit id is not modelled.
\<close>

definition next_id :: "int list \<Rightarrow> int" where
  "next_id ids = fold max ids 0 + 1"

text \<open>\<open>Author.query.get(id)\<close> and \<open>Book.query.get(id)\<close>: the row with that primary key.\<close>

definition get_author_row :: "store \<Rightarrow> int \<Rightarrow> exn + author option" where
  "get_author_row s i =
     (if int64 i then Inr (find (\<lambda>a. aid a = i) (authors s)) else Inl OverflowError)"

definition get_book_row :: "store \<Rightarrow> int \<Rightarrow> exn + book option" where
  "get_book_row s i =
     (if int64 i then Inr (find (\<lambda>b. bid b = i) (books s)) else Inl OverflowError)"

text \<open>
  \<open>Author.query.get(data['author_id'])\<close> of \<open>create_book\<close>, whose key is a value of the
  body: the primary key is never NULL, so the key \<open>None\<close> finds no row.
\<close>

fun query_get_author :: "store \<Rightarrow> int option \<Rightarrow> exn + author option" where
  "query_get_author s None = Inr None"
| "query_get_author s (Some i) = get_author_row s i"

text \<open>\<open>query.get_or_404(id)\<close>: the row, or \<open>abort(404)\<close>.\<close>

definition author_get_or_404 :: "store \<Rightarrow> int \<Rightarrow> response + author" where
  "author_get_or_404 s i =
     (case get_author_row s i of
        Inl e \<Rightarrow> Inl (Unhandled e)
      | Inr None \<Rightarrow> Inl (Abort 404)
      | Inr (Some a) \<Rightarrow> Inr a)"

definition book_get_or_404 :: "store \<Rightarrow> int \<Rightarrow> response + book" where
  "book_get_or_404 s i =
     (case get_book_row s i of
        Inl e \<Rightarrow> Inl (Unhandled e)
      | Inr None \<Rightarrow> Inl (Abort 404)
      | Inr (Some b) \<Rightarrow> Inr b)"

text \<open>
  The constraints of a row against the other rows of its table. For Author:
  \<open>name\<close> is \<open>nullable=False\<close> (line 36). For Book: \<open>title\<close> and \<open>author_id\<close> are
  \<open>nullable=False\<close> (lines 54, 60) and \<open>isbn\<close> is \<open>unique=True\<close> (line 56); NULL is no
  value, so any number of rows may have no isbn. The foreign key of line 60 is declared
  but SQLite, as this application opens it (line 25, no pragma), does not enforce it.
\<close>

definition author_row_ok :: "author \<Rightarrow> bool" where
  "author_row_ok a \<longleftrightarrow> name a \<noteq> None"

definition book_row_ok :: "book list \<Rightarrow> book \<Rightarrow> bool" where
  "book_row_ok others b \<longleftrightarrow>
     title b \<noteq> None \<and> author_id b \<noteq> None \<and>
     (case isbn b of None \<Rightarrow> True | Some i \<Rightarrow> list_all (\<lambda>r. isbn r \<noteq> Some i) others)"

definition book_bindable :: "book \<Rightarrow> bool" where
  "book_bindable b \<longleftrightarrow> int64_opt (year b) \<and> int64_opt (author_id b)"

text \<open>
  \<open>db.session.add(obj); db.session.commit()\<close> for a new object: one INSERT. The engine
  assigns the id; the column default fills \<open>created_at\<close> with the current time, which
  is the argument \<open>now\<close>. A failed statement leaves the database as it was.
\<close>

definition insert_author :: "author \<Rightarrow> store \<Rightarrow> exn + author \<times> store" where
  "insert_author a s =
     (let row = a\<lparr>aid := next_id (map aid (authors s))\<rparr>
      in if \<not> author_row_ok row then Inl IntegrityError
         else Inr (row, s\<lparr>authors := authors s @ [row]\<rparr>))"

definition insert_book :: "datetime \<Rightarrow> book \<Rightarrow> store \<Rightarrow> exn + book \<times> store" where
  "insert_book now b s =
     (let row = b\<lparr>bid := next_id (map bid (books s)),
                  created_at := (case created_at b of None \<Rightarrow> Some now | Some t \<Rightarrow> Some t)\<rparr>
      in if \<not> book_bindable row then Inl OverflowError
         else if \<not> book_row_ok (books s) row then Inl IntegrityError
         else Inr (row, s\<lparr>books := books s @ [row]\<rparr>))"

text \<open>
  \<open>db.session.commit()\<close> after attributes of a loaded object were assigned: no statement
  when no attribute has a new value, otherwise one UPDATE of the row with that id. The
  new row is checked as a whole; in a database whose rows satisfy the constraints this
  is the check of the columns that changed.
\<close>

definition flush_author :: "author \<Rightarrow> author \<Rightarrow> store \<Rightarrow> exn + store" where
  "flush_author old new s =
     (if new = old then Inr s
      else if \<not> author_row_ok new then Inl IntegrityError
      else Inr (s\<lparr>authors := map (\<lambda>r. if aid r = aid new then new else r) (authors s)\<rparr>))"

definition flush_book :: "book \<Rightarrow> book \<Rightarrow> store \<Rightarrow> exn + store" where
  "flush_book old new s =
     (if new = old then Inr s
      else if \<not> book_bindable new then Inl OverflowError
      else if \<not> book_row_ok (filter (\<lambda>r. bid r \<noteq> bid new) (books s)) new
        then Inl IntegrityError
      else Inr (s\<lparr>books := map (\<lambda>r. if bid r = bid new then new else r) (books s)\<rparr>))"

text \<open>
  \<open>db.session.delete(obj); db.session.commit()\<close>. For a Book: one DELETE. For an
  Author the relationship \<open>books\<close> is declared with \<open>cascade="all, delete-orphan"\<close>
  (line 41): the session loads the author's books, which are the rows whose \<open>author_id\<close>
  is the author's id, and the one transaction that \<open>commit()\<close> ends deletes them and the
  author's row.
\<close>

definition delete_book_row :: "book \<Rightarrow> store \<Rightarrow> store" where
  "delete_book_row b s = s\<lparr>books := filter (\<lambda>r. bid r \<noteq> bid b) (books s)\<rparr>"

definition delete_author_cascade :: "author \<Rightarrow> store \<Rightarrow> store" where
  "delete_author_cascade a s =
     s\<lparr>authors := filter (\<lambda>r. aid r \<noteq> aid a) (authors s),
       books := filter (\<lambda>b. author_id b \<noteq> Some (aid a)) (books s)\<rparr>"

section \<open>Serialization (lines 43-50, 62-70)\<close>

text \<open>\<open>self.books\<close> of an author: the books whose \<open>author_id\<close> is the author's id.\<close>

definition books_of :: "store \<Rightarrow> author \<Rightarrow> book list" where
  "books_of s a = filter (\<lambda>b. author_id b = Some (aid a)) (books s)"

definition author_to_dict :: "store \<Rightarrow> author \<Rightarrow> author_dict" where
  "author_to_dict s a =
     \<lparr>ad_id = aid a, ad_name = name a, ad_bio = bio a, ad_city = city a,
      ad_books = map title (books_of s a)\<rparr>"

text \<open>
  \<open>created_at\<close> is rendered by \<open>isoformat()\<close>, or is \<open>None\<close>; the rendering of a time as
  text is left out.
\<close>

definition book_to_dict :: "book \<Rightarrow> book_dict" where
  "book_to_dict b =
     \<lparr>bd_id = bid b, bd_title = title b, bd_author_id = author_id b, bd_year = year b,
      bd_isbn = isbn b, bd_created_at = created_at b\<rparr>"

section \<open>Author routes (lines 76-114)\<close>

definition get_authors :: "store \<Rightarrow> response" where
  "get_authors s =
     (let authors = authors s
      in Json 200 True (AuthorsBody (length authors) (map (author_to_dict s) authors)))"

definition get_author :: "int \<Rightarrow> store \<Rightarrow> response" where
  "get_author i s =
     (case author_get_or_404 s i of
        Inl r \<Rightarrow> r
      | Inr author \<Rightarrow> Json 200 True (AuthorBody (author_to_dict s author)))"

text \<open>
  \<open>not data or not data.get('name')\<close>: a body that is \<open>None\<close> or an empty dict has no
  name either.
\<close>

definition create_author :: "author_data option \<Rightarrow> store \<Rightarrow> response \<times> store" where
  "create_author data s =
     (case data of
        None \<Rightarrow> (Json 400 False (ErrorBody ''Name is required''), s)
      | Some d \<Rightarrow>
          if \<not> truthy_str (dget (j_name d))
          then (Json 400 False (ErrorBody ''Name is required''), s)
          else
            (let new_author = \<lparr>aid = 0, name = dget (j_name d), bio = dget (j_bio d),
                               city = dget (j_city d)\<rparr>
             in case insert_author new_author s of
                  Inl e \<Rightarrow> (Unhandled e, s)
                | Inr (row, s') \<Rightarrow> (Json 201 True (AuthorBody (author_to_dict s' row)), s')))"

text \<open>The three conditional assignments of \<open>update_author\<close> (lines 102-104).\<close>

definition assign_author :: "author_data \<Rightarrow> author \<Rightarrow> author" where
  "assign_author d author =
     (let a1 = (if present (j_name d) then author\<lparr>name := dget (j_name d)\<rparr> else author);
          a2 = (if present (j_bio d) then a1\<lparr>bio := dget (j_bio d)\<rparr> else a1);
          a3 = (if present (j_city d) then a2\<lparr>city := dget (j_city d)\<rparr> else a2)
      in a3)"

text \<open>\<open>'name' in data\<close> raises \<open>TypeError\<close> when \<open>data\<close> is \<open>None\<close>.\<close>

definition update_author :: "int \<Rightarrow> author_data option \<Rightarrow> store \<Rightarrow> response \<times> store" where
  "update_author i data s =
     (case author_get_or_404 s i of
        Inl r \<Rightarrow> (r, s)
      | Inr author \<Rightarrow>
          (case data of
             None \<Rightarrow> (Unhandled TypeError, s)
           | Some d \<Rightarrow>
               (let author' = assign_author d author
                in case flush_author author author' s of
                     Inl e \<Rightarrow> (Unhandled e, s)
                   | Inr s' \<Rightarrow> (Json 200 True (AuthorBody (author_to_dict s' author')), s'))))"

definition delete_author :: "int \<Rightarrow> store \<Rightarrow> response \<times> store" where
  "delete_author i s =
     (case author_get_or_404 s i of
        Inl r \<Rightarrow> (r, s)
      | Inr author \<Rightarrow>
          (Json 200 True (MessageBody ''Author and their books deleted''),
           delete_author_cascade author s))"

section \<open>Book routes (lines 120-168)\<close>

definition get_books :: "store \<Rightarrow> response" where
  "get_books s =
     (let books = books s
      in Json 200 True (BooksBody (length books) (map book_to_dict books)))"

definition get_book :: "int \<Rightarrow> store \<Rightarrow> response" where
  "get_book i s =
     (case book_get_or_404 s i of
        Inl r \<Rightarrow> r
      | Inr book \<Rightarrow> Json 200 True (BookBody (book_to_dict book)))"

definition create_book :: "datetime \<Rightarrow> book_data option \<Rightarrow> store \<Rightarrow> response \<times> store" where
  "create_book now data s =
     (case data of
        None \<Rightarrow> (Json 400 False (ErrorBody ''Title and author_id are required''), s)
      | Some d \<Rightarrow>
          if \<not> truthy_str (dget (j_title d)) \<or> \<not> truthy_int (dget (j_author_id d))
          then (Json 400 False (ErrorBody ''Title and author_id are required''), s)
          else
            (case query_get_author s (dget (j_author_id d)) of
               Inl e \<Rightarrow> (Unhandled e, s)
             | Inr None \<Rightarrow> (Json 404 False (ErrorBody ''Author not found''), s)
             | Inr (Some a) \<Rightarrow>
                 (let new_book = \<lparr>bid = 0, title = dget (j_title d), year = dget (j_year d),
                                  isbn = dget (j_isbn d), created_at = None,
                                  author_id = dget (j_author_id d)\<rparr>
                  in case insert_book now new_book s of
                       Inl e \<Rightarrow> (Unhandled e, s)
                     | Inr (row, s') \<Rightarrow> (Json 201 True (BookBody (book_to_dict row)), s'))))"

text \<open>The four conditional assignments of \<open>update_book\<close> (lines 155-158).\<close>

definition assign_book :: "book_data \<Rightarrow> book \<Rightarrow> book" where
  "assign_book d book =
     (let b1 = (if present (j_title d) then book\<lparr>title := dget (j_title d)\<rparr> else book);
          b2 = (if present (j_author_id d) then b1\<lparr>author_id := dget (j_author_id d)\<rparr> else b1);
          b3 = (if present (j_year d) then b2\<lparr>year := dget (j_year d)\<rparr> else b2);
          b4 = (if present (j_isbn d) then b3\<lparr>isbn := dget (j_isbn d)\<rparr> else b3)
      in b4)"

definition update_book :: "int \<Rightarrow> book_data option \<Rightarrow> store \<Rightarrow> response \<times> store" where
  "update_book i data s =
     (case book_get_or_404 s i of
        Inl r \<Rightarrow> (r, s)
      | Inr book \<Rightarrow>
          (case data of
             None \<Rightarrow> (Unhandled TypeError, s)
           | Some d \<Rightarrow>
               (let book' = assign_book d book
                in case flush_book book book' s of
                     Inl e \<Rightarrow> (Unhandled e, s)
                   | Inr s' \<Rightarrow> (Json 200 True (BookBody (book_to_dict book')), s'))))"

definition delete_book :: "int \<Rightarrow> store \<Rightarrow> response \<times> store" where
  "delete_book i s =
     (case book_get_or_404 s i of
        Inl r \<Rightarrow> (r, s)
      | Inr book \<Rightarrow> (Json 200 True (MessageBody ''Book deleted''), delete_book_row book s))"

section \<open>Search (lines 174-186)\<close>

text \<open>
  \<open>Book.title.ilike(pattern)\<close> is the SQL operator LIKE on the lower-cased operands.
  In a LIKE pattern \<open>%\<close> stands for any run of characters and \<open>_\<close> for any one character;
  the query names no escape character. The engine's \<open>lower\<close> folds the letters A to Z.
\<close>

fun like :: "string \<Rightarrow> string \<Rightarrow> bool" where
  "like [] [] = True"
| "like [] (c # cs) = False"
| "like (p # ps) [] = (p = CHR ''%'' \<and> like ps [])"
| "like (p # ps) (c # cs) =
     (if p = CHR ''%'' then like ps (c # cs) \<or> like (p # ps) cs
      else (p = CHR ''_'' \<or> p = c) \<and> like ps cs)"

definition lower_char :: "char \<Rightarrow> char" where
  "lower_char c =
     (let n = (of_char c :: nat) in if 65 \<le> n \<and> n \<le> 90 then char_of (n + 32) else c)"

definition lower :: "string \<Rightarrow> string" where
  "lower s = map lower_char s"

fun ilike :: "string option \<Rightarrow> string \<Rightarrow> bool" where
  "ilike None pat = False"
| "ilike (Some t) pat = like (lower pat) (lower t)"

text \<open>
  Python's \<open>int(s)\<close> on a string of ASCII characters: white space around, an optional
  sign, then decimal digits, where one underscore may stand between two digits.
  \<open>None\<close> is \<open>ValueError\<close>. The limit that recent versions of Python put on the number of
  digits (4300 unless configured) is not modelled.
\<close>

definition is_space :: "char \<Rightarrow> bool" where
  "is_space c \<longleftrightarrow> (let n = (of_char c :: nat) in n = 32 \<or> (9 \<le> n \<and> n \<le> 13))"

definition is_digit :: "char \<Rightarrow> bool" where
  "is_digit c \<longleftrightarrow> (let n = (of_char c :: nat) in 48 \<le> n \<and> n \<le> 57)"

definition digit_val :: "char \<Rightarrow> int" where
  "digit_val c = int (of_char c) - 48"

definition strip :: "string \<Rightarrow> string" where
  "strip s = rev (dropWhile is_space (rev (dropWhile is_space s)))"

fun py_digits :: "int \<Rightarrow> string \<Rightarrow> int option" where
  "py_digits acc [] = Some acc"
| "py_digits acc [c] = (if is_digit c then Some (10 * acc + digit_val c) else None)"
| "py_digits acc (c # d # cs) =
     (if is_digit c then py_digits (10 * acc + digit_val c) (d # cs)
      else if c = CHR ''_'' \<and> is_digit d then py_digits acc (d # cs)
      else None)"

fun py_unsigned :: "string \<Rightarrow> int option" where
  "py_unsigned [] = None"
| "py_unsigned (c # cs) = (if is_digit c then py_digits (digit_val c) cs else None)"

fun py_signed :: "string \<Rightarrow> int option" where
  "py_signed [] = None"
| "py_signed (c # cs) =
     (if c = CHR ''-'' then map_option uminus (py_unsigned cs)
      else if c = CHR ''+'' then py_unsigned cs
      else py_unsigned (c # cs))"

definition py_int :: "string \<Rightarrow> int option" where
  "py_int s = py_signed (strip s)"

text \<open>
  The view: \<open>q\<close> and \<open>author_id\<close> are \<open>request.args.get(...)\<close>, \<open>None\<close> for a parameter
  that the URL does not have. An empty string is false in \<open>if title:\<close>.
\<close>

definition search_books :: "string option \<Rightarrow> string option \<Rightarrow> store \<Rightarrow> response" where
  "search_books q author_id_arg s =
     (let query = books s;
          query1 = (case q of
                      None \<Rightarrow> query
                    | Some t \<Rightarrow>
                        if t \<noteq> [] then filter (\<lambda>b. ilike (title b) (''%'' @ t @ ''%'')) query
                        else query)
      in case author_id_arg of
           None \<Rightarrow> Json 200 True (BooksBody (length query1) (map book_to_dict query1))
         | Some a \<Rightarrow>
             if a \<noteq> [] then
               (case py_int a of
                  None \<Rightarrow> Unhandled ValueError
                | Some n \<Rightarrow>
                    if \<not> int64 n then Unhandled OverflowError
                    else
                      (let results = filter (\<lambda>b. author_id b = Some n) query1
                       in Json 200 True (BooksBody (length results) (map book_to_dict results))))
             else Json 200 True (BooksBody (length query1) (map book_to_dict query1)))"

section \<open>Sample data (lines 343-361)\<close>

text \<open>
  \<open>init_db\<close> commits twice: the two authors, then the two books. An exception of the
  second commit leaves the authors in the database. The result is the exception, if any,
  and the database. The column default of \<open>created_at\<close> reads the clock once for each
  book: \<open>now1\<close> and \<open>now2\<close>.
\<close>

definition init_db :: "datetime \<Rightarrow> datetime \<Rightarrow> store \<Rightarrow> exn option \<times> store" where
  "init_db now1 now2 s =
     (if length (authors s) = 0 then
        (let a1 = \<lparr>aid = 0, name = Some ''Eric Matthes'', bio = Some ''Python Expert'',
                   city = Some ''Chicago''\<rparr>;
             a2 = \<lparr>aid = 0, name = Some ''Miguel Grinberg'', bio = Some ''Flask Guru'',
                   city = Some ''Dublin''\<rparr>
         in case insert_author a1 s of
              Inl e \<Rightarrow> (Some e, s)
            | Inr (r1, s1) \<Rightarrow>
                (case insert_author a2 s1 of
                   Inl e \<Rightarrow> (Some e, s)
                 | Inr (r2, s2) \<Rightarrow>
                     (let b1 = \<lparr>bid = 0, title = Some ''Python Crash Course'', year = Some 2019,
                                isbn = Some ''978-1593279288'', created_at = None,
                                author_id = Some (aid r1)\<rparr>;
                          b2 = \<lparr>bid = 0, title = Some ''Flask Web Development'',
                                year = Some 2018, isbn = Some ''978-1491991732'',
                                created_at = None, author_id = Some (aid r2)\<rparr>
                      in case insert_book now1 b1 s2 of
                           Inl e \<Rightarrow> (Some e, s2)
                         | Inr (r3, s3) \<Rightarrow>
                             (case insert_book now2 b2 s3 of
                                Inl e \<Rightarrow> (Some e, s2)
                              | Inr (r4, s4) \<Rightarrow> (None, s4)))))
      else (None, s))"

text \<open>The database after the first start, with both books created at time \<open>now\<close>.\<close>

definition seeded :: "datetime \<Rightarrow> store" where
  "seeded now = snd (init_db now now empty_store)"

section \<open>Notions of the specification\<close>

text \<open>
  A Book is orphaned in a database when no Author of that database has the id in its
  \<open>author_id\<close>.
\<close>

definition orphan :: "store \<Rightarrow> book \<Rightarrow> bool" where
  "orphan s b \<longleftrightarrow>
     (case author_id b of
        None \<Rightarrow> True
      | Some i \<Rightarrow> find (\<lambda>a. aid a = i) (authors s) = None)"

text \<open>
  The title of a Book contains a string when, both in lower case, the string is a run of
  consecutive characters of the title.
\<close>

definition title_contains :: "string \<Rightarrow> book \<Rightarrow> bool" where
  "title_contains q b \<longleftrightarrow>
     (case title b of None \<Rightarrow> False | Some t \<Rightarrow> sublist (lower q) (lower t))"

text \<open>
  The search of the specification: the Books that contain the title filter, when one is
  given, and whose \<open>author_id\<close> is the author filter, when one is given.
\<close>

definition search_spec :: "string option \<Rightarrow> int option \<Rightarrow> store \<Rightarrow> book list" where
  "search_spec q n s =
     filter (\<lambda>b. (case q of None \<Rightarrow> True | Some t \<Rightarrow> title_contains t b) \<and>
                 (case n of None \<Rightarrow> True | Some i \<Rightarrow> author_id b = Some i)) (books s)"

text \<open>A filter text without the wild cards of LIKE.\<close>

definition plain :: "string \<Rightarrow> bool" where
  "plain q \<longleftrightarrow> CHR ''%'' \<notin> set q \<and> CHR ''_'' \<notin> set q"

text \<open>A string of ASCII characters, the strings on which \<open>py_int\<close> is Python's \<open>int\<close>.\<close>

definition ascii :: "string \<Rightarrow> bool" where
  "ascii s \<longleftrightarrow> list_all (\<lambda>c. (of_char c :: nat) < 128) s"

section \<open>Evaluating the views on the sample data\<close>

lemma init_db_empty_store:
  "init_db now1 now2 empty_store =
     (None,
      \<lparr>authors =
         [\<lparr>aid = 1, name = Some ''Eric Matthes'', bio = Some ''Python Expert'',
           city = Some ''Chicago''\<rparr>,
          \<lparr>aid = 2, name = Some ''Miguel Grinberg'', bio = Some ''Flask Guru'',
           city = Some ''Dublin''\<rparr>],
       books =
         [\<lparr>bid = 1, title = Some ''Python Crash Course'', year = Some 2019,
           isbn = Some ''978-1593279288'', created_at = Some now1, author_id = Some 1\<rparr>,
          \<lparr>bid = 2, title = Some ''Flask Web Development'', year = Some 2018,
           isbn = Some ''978-1491991732'', created_at = Some now2, author_id = Some 2\<rparr>]\<rparr>)"
  by (simp add: init_db_def empty_store_def insert_author_def insert_book_def next_id_def
      author_row_ok_def book_row_ok_def book_bindable_def int64_def Let_def)

lemma seeded_store:
  "seeded now =
     \<lparr>authors =
        [\<lparr>aid = 1, name = Some ''Eric Matthes'', bio = Some ''Python Expert'',
          city = Some ''Chicago''\<rparr>,
         \<lparr>aid = 2, name = Some ''Miguel Grinberg'', bio = Some ''Flask Guru'',
          city = Some ''Dublin''\<rparr>],
      books =
        [\<lparr>bid = 1, title = Some ''Python Crash Course'', year = Some 2019,
          isbn = Some ''978-1593279288'', created_at = Some now, author_id = Some 1\<rparr>,
         \<lparr>bid = 2, title = Some ''Flask Web Development'', year = Some 2018,
          isbn = Some ''978-1491991732'', created_at = Some now, author_id = Some 2\<rparr>]\<rparr>"
  by (simp add: seeded_def init_db_empty_store)

lemma int64_small [simp]: "int64 1" "int64 2" "int64 99"
  by (simp_all add: int64_def)

text \<open>
  C8. On an empty database \<open>init_db\<close> raises nothing and stores exactly Author 1
  "Eric Matthes", Author 2 "Miguel Grinberg", Book 1 "Python Crash Course" of author 1
  and Book 2 "Flask Web Development" of author 2. On that database the list of books has
  count 2; after the deletion of author 1 it has count 1 and holds only book 2.
\<close>

theorem init_db_sample_scenario:
  "init_db now1 now2 empty_store =
     (None,
      \<lparr>authors =
         [\<lparr>aid = 1, name = Some ''Eric Matthes'', bio = Some ''Python Expert'',
           city = Some ''Chicago''\<rparr>,
          \<lparr>aid = 2, name = Some ''Miguel Grinberg'', bio = Some ''Flask Guru'',
           city = Some ''Dublin''\<rparr>],
       books =
         [\<lparr>bid = 1, title = Some ''Python Crash Course'', year = Some 2019,
           isbn = Some ''978-1593279288'', created_at = Some now1, author_id = Some 1\<rparr>,
          \<lparr>bid = 2, title = Some ''Flask Web Development'', year = Some 2018,
           isbn = Some ''978-1491991732'', created_at = Some now2, author_id = Some 2\<rparr>]\<rparr>) \<and>
   get_books (snd (init_db now1 now2 empty_store)) =
     Json 200 True
       (BooksBody 2
          [\<lparr>bd_id = 1, bd_title = Some ''Python Crash Course'', bd_author_id = Some 1,
            bd_year = Some 2019, bd_isbn = Some ''978-1593279288'',
            bd_created_at = Some now1\<rparr>,
           \<lparr>bd_id = 2, bd_title = Some ''Flask Web Development'', bd_author_id = Some 2,
            bd_year = Some 2018, bd_isbn = Some ''978-1491991732'',
            bd_created_at = Some now2\<rparr>]) \<and>
   fst (delete_author 1 (snd (init_db now1 now2 empty_store))) =
     Json 200 True (MessageBody ''Author and their books deleted'') \<and>
   get_books (snd (delete_author 1 (snd (init_db now1 now2 empty_store)))) =
     Json 200 True
       (BooksBody 1
          [\<lparr>bd_id = 2, bd_title = Some ''Flask Web Development'', bd_author_id = Some 2,
            bd_year = Some 2018, bd_isbn = Some ''978-1491991732'',
            bd_created_at = Some now2\<rparr>])"
proof -
  define s0 where "s0 = snd (init_db now1 now2 empty_store)"
  have s0: "s0 =
      \<lparr>authors =
         [\<lparr>aid = 1, name = Some ''Eric Matthes'', bio = Some ''Python Expert'',
           city = Some ''Chicago''\<rparr>,
          \<lparr>aid = 2, name = Some ''Miguel Grinberg'', bio = Some ''Flask Guru'',
           city = Some ''Dublin''\<rparr>],
       books =
         [\<lparr>bid = 1, title = Some ''Python Crash Course'', year = Some 2019,
           isbn = Some ''978-1593279288'', created_at = Some now1, author_id = Some 1\<rparr>,
          \<lparr>bid = 2, title = Some ''Flask Web Development'', year = Some 2018,
           isbn = Some ''978-1491991732'', created_at = Some now2, author_id = Some 2\<rparr>]\<rparr>"
    by (simp add: s0_def init_db_empty_store)
  have listed: "get_books s0 =
     Json 200 True
       (BooksBody 2
          [\<lparr>bd_id = 1, bd_title = Some ''Python Crash Course'', bd_author_id = Some 1,
            bd_year = Some 2019, bd_isbn = Some ''978-1593279288'',
            bd_created_at = Some now1\<rparr>,
           \<lparr>bd_id = 2, bd_title = Some ''Flask Web Development'', bd_author_id = Some 2,
            bd_year = Some 2018, bd_isbn = Some ''978-1491991732'',
            bd_created_at = Some now2\<rparr>])"
    by (simp add: s0 get_books_def book_to_dict_def)
  have deleted: "delete_author 1 s0 =
     (Json 200 True (MessageBody ''Author and their books deleted''),
      \<lparr>authors =
         [\<lparr>aid = 2, name = Some ''Miguel Grinberg'', bio = Some ''Flask Guru'',
           city = Some ''Dublin''\<rparr>],
       books =
         [\<lparr>bid = 2, title = Some ''Flask Web Development'', year = Some 2018,
           isbn = Some ''978-1491991732'', created_at = Some now2, author_id = Some 2\<rparr>]\<rparr>)"
    by (simp add: s0 delete_author_def author_get_or_404_def get_author_row_def
        delete_author_cascade_def)
  have relisted: "get_books (snd (delete_author 1 s0)) =
     Json 200 True
       (BooksBody 1
          [\<lparr>bd_id = 2, bd_title = Some ''Flask Web Development'', bd_author_id = Some 2,
            bd_year = Some 2018, bd_isbn = Some ''978-1491991732'',
            bd_created_at = Some now2\<rparr>])"
    by (simp add: deleted get_books_def book_to_dict_def)
  from listed deleted relisted show ?thesis
    unfolding s0_def by (simp add: init_db_empty_store)
qed

section \<open>Update requests without a body\<close>

text \<open>
  C9. An update of an existing Author or Book whose body \<open>data\<close> is \<open>None\<close> ends in the
  \<open>TypeError\<close> that the membership test \<open>'name' in data\<close> (or \<open>'title' in data\<close>) raises:
  no response is returned, so no error envelope either, and the database is untouched.
\<close>

theorem update_without_body_raises:
  assumes "int64 i"
  shows "(find (\<lambda>a. aid a = i) (authors s) = Some a \<longrightarrow>
            update_author i None s = (Unhandled TypeError, s) \<and>
            \<not> is_error_envelope (fst (update_author i None s))) \<and>
         (find (\<lambda>b. bid b = i) (books s) = Some b \<longrightarrow>
            update_book i None s = (Unhandled TypeError, s) \<and>
            \<not> is_error_envelope (fst (update_book i None s)))"
  using assms
  by (simp add: update_author_def update_book_def author_get_or_404_def book_get_or_404_def
      get_author_row_def get_book_row_def)

theorem update_without_body_raises_witness:
  "int64 1 \<and>
   find (\<lambda>a. aid a = 1) (authors (seeded 0)) =
     Some \<lparr>aid = 1, name = Some ''Eric Matthes'', bio = Some ''Python Expert'',
           city = Some ''Chicago''\<rparr> \<and>
   update_author 1 None (seeded 0) = (Unhandled TypeError, seeded 0) \<and>
   find (\<lambda>b. bid b = 1) (books (seeded 0)) =
     Some \<lparr>bid = 1, title = Some ''Python Crash Course'', year = Some 2019,
           isbn = Some ''978-1593279288'', created_at = Some 0, author_id = Some 1\<rparr> \<and>
   update_book 1 None (seeded 0) = (Unhandled TypeError, seeded 0)"
proof -
  have a: "find (\<lambda>a. aid a = 1) (authors (seeded 0)) =
     Some \<lparr>aid = 1, name = Some ''Eric Matthes'', bio = Some ''Python Expert'',
           city = Some ''Chicago''\<rparr>"
    by (simp add: seeded_store)
  have b: "find (\<lambda>b. bid b = 1) (books (seeded 0)) =
     Some \<lparr>bid = 1, title = Some ''Python Crash Course'', year = Some 2019,
           isbn = Some ''978-1593279288'', created_at = Some 0, author_id = Some 1\<rparr>"
    by (simp add: seeded_store)
  have i: "int64 1" by simp
  from update_without_body_raises [OF i, of "seeded 0"] a b i show ?thesis
    by simp
qed

section \<open>Ids that are not in the database\<close>

text \<open>
  C3, as the code has it. A get, update or delete of an Author or of a Book whose id is
  in the signed 64-bit range and is not in the database ends in \<open>abort(404)\<close>: the status
  is 404, the view returns no envelope (the framework sends its default page), and the
  database is untouched.
\<close>

theorem missing_id_aborts_404:
  assumes "int64 i"
  shows "(find (\<lambda>a. aid a = i) (authors s) = None \<longrightarrow>
            get_author i s = Abort 404 \<and> update_author i adata s = (Abort 404, s) \<and>
            delete_author i s = (Abort 404, s)) \<and>
         (find (\<lambda>b. bid b = i) (books s) = None \<longrightarrow>
            get_book i s = Abort 404 \<and> update_book i bdata s = (Abort 404, s) \<and>
            delete_book i s = (Abort 404, s))"
  using assms
  by (simp add: get_author_def update_author_def delete_author_def get_book_def update_book_def
      delete_book_def author_get_or_404_def book_get_or_404_def
      get_author_row_def get_book_row_def)

theorem missing_id_aborts_404_witness:
  "int64 99 \<and> find (\<lambda>a. aid a = 99) (authors (seeded 0)) = None \<and>
   find (\<lambda>b. bid b = 99) (books (seeded 0)) = None \<and>
   get_author 99 (seeded 0) = Abort 404 \<and>
   update_author 99 None (seeded 0) = (Abort 404, seeded 0) \<and>
   delete_author 99 (seeded 0) = (Abort 404, seeded 0) \<and>
   get_book 99 (seeded 0) = Abort 404 \<and>
   update_book 99 None (seeded 0) = (Abort 404, seeded 0) \<and>
   delete_book 99 (seeded 0) = (Abort 404, seeded 0)"
proof -
  have i: "int64 99" by simp
  have a: "find (\<lambda>a. aid a = 99) (authors (seeded 0)) = None" by (simp add: seeded_store)
  have b: "find (\<lambda>b. bid b = 99) (books (seeded 0)) = None" by (simp add: seeded_store)
  from missing_id_aborts_404 [OF i, of "seeded 0" None None] a b i show ?thesis by simp
qed

text \<open>
  C3 as the specification states it fails: on the sample data, the get of author 99 has
  status 404 but is no error envelope, and the get of author \<open>2 ^ 63\<close>, an id that the URL
  converter accepts, ends in \<open>OverflowError\<close> and not in a 404.
\<close>

theorem missing_id_envelope_counterexample:
  "get_author 99 (seeded 0) = Abort 404 \<and>
   \<not> is_error_envelope (get_author 99 (seeded 0)) \<and>
   get_author (2 ^ 63) (seeded 0) = Unhandled OverflowError \<and>
   status_of (get_author (2 ^ 63) (seeded 0)) \<noteq> Some 404"
  by (simp add: get_author_def author_get_or_404_def get_author_row_def seeded_store int64_def)

section \<open>Creating a book\<close>

text \<open>
  C4, as the code has it. A create request whose \<open>author_id\<close> is no Author's id never
  changes the database; when its title is a non-empty string and its \<open>author_id\<close> is a
  non-zero integer of the signed 64-bit range, the answer is the 404 envelope
  "Author not found".
\<close>

theorem create_book_unknown_author:
  assumes "find (\<lambda>a. Some (aid a) = dget (j_author_id d)) (authors s) = None"
  shows "snd (create_book now (Some d) s) = s \<and>
         (truthy_str (dget (j_title d)) \<and> truthy_int (dget (j_author_id d)) \<and>
          int64_opt (dget (j_author_id d)) \<longrightarrow>
            fst (create_book now (Some d) s) = Json 404 False (ErrorBody ''Author not found''))"
  using assms
  by (cases "j_author_id d")
     (auto simp: create_book_def get_author_row_def split: sum.splits option.splits)

theorem create_book_unknown_author_witness:
  "find (\<lambda>a. Some (aid a) =
      dget (j_author_id \<lparr>j_title = Val ''Fluent Python'', j_author_id = Val 99,
                         j_year = Val 2015, j_isbn = Absent\<rparr>)) (authors (seeded 0)) = None \<and>
   create_book 5 (Some \<lparr>j_title = Val ''Fluent Python'', j_author_id = Val 99,
                        j_year = Val 2015, j_isbn = Absent\<rparr>) (seeded 0) =
     (Json 404 False (ErrorBody ''Author not found''), seeded 0)"
proof -
  let ?d = "\<lparr>j_title = Val ''Fluent Python'', j_author_id = Val 99,
             j_year = Val 2015, j_isbn = Absent\<rparr>"
  have f: "find (\<lambda>a. Some (aid a) = dget (j_author_id ?d)) (authors (seeded 0)) = None"
    by (simp add: seeded_store)
  from create_book_unknown_author [OF f, of 5] f show ?thesis
    by (simp add: prod_eq_iff)
qed

text \<open>
  C4 as the specification states it fails: a request without a title whose \<open>author_id\<close>
  99 is no Author's id is refused by the check of the required fields, with status 400
  and not with NotFound.
\<close>

theorem create_book_unknown_author_counterexample:
  "get_author_row (seeded 0) 99 = Inr None \<and>
   create_book 5 (Some \<lparr>j_title = Absent, j_author_id = Val 99, j_year = Absent,
                        j_isbn = Absent\<rparr>) (seeded 0) =
     (Json 400 False (ErrorBody ''Title and author_id are required''), seeded 0)"
  by (simp add: create_book_def get_author_row_def seeded_store)

lemma isbn_taken:
  "b \<in> set bs \<Longrightarrow> isbn b = Some x \<Longrightarrow> \<not> list_all (\<lambda>r. isbn r \<noteq> Some x) bs"
  by (auto simp: list_all_iff)

lemma insert_book_isbn_taken:
  assumes "b \<in> set (books s)" and "isbn b = Some x" and "isbn nb = Some x"
  shows "insert_book now nb s =
           Inl (if int64_opt (year nb) \<and> int64_opt (author_id nb) then IntegrityError
                else OverflowError)"
  using isbn_taken [OF assms(1,2)] assms(3)
  by (simp add: insert_book_def book_bindable_def book_row_ok_def Let_def)

text \<open>
  C7. When a Book of the database has the isbn of a create request, the request creates
  nothing and leaves the database as it was. A request that passes the checks of the view
  (title, author, integers that the driver can bind) ends in the \<open>IntegrityError\<close> of the
  unique constraint.
\<close>

theorem create_book_duplicate_isbn:
  assumes "b \<in> set (books s)" and "isbn b = Some x" and "dget (j_isbn d) = Some x"
  shows "snd (create_book now (Some d) s) = s \<and>
         (\<forall>row. fst (create_book now (Some d) s) \<noteq> Json 201 True (BookBody row)) \<and>
         (truthy_str (dget (j_title d)) \<and> truthy_int (dget (j_author_id d)) \<and>
          int64_opt (dget (j_author_id d)) \<and> int64_opt (dget (j_year d)) \<and>
          find (\<lambda>a. Some (aid a) = dget (j_author_id d)) (authors s) \<noteq> None \<longrightarrow>
            fst (create_book now (Some d) s) = Unhandled IntegrityError)"
proof -
  let ?nb = "\<lparr>bid = 0, title = dget (j_title d), year = dget (j_year d),
              isbn = dget (j_isbn d), created_at = None, author_id = dget (j_author_id d)\<rparr>"
  have "isbn ?nb = Some x" using assms(3) by simp
  from insert_book_isbn_taken [OF assms(1,2) this, of now]
  have ins: "insert_book now ?nb s =
           Inl (if int64_opt (dget (j_year d)) \<and> int64_opt (dget (j_author_id d))
                then IntegrityError else OverflowError)"
    by simp
  show ?thesis
  proof (cases "dget (j_author_id d)")
    case None
    then show ?thesis by (simp add: create_book_def)
  next
    case (Some n)
    then show ?thesis
      using ins
      by (auto simp: create_book_def get_author_row_def split: sum.splits option.splits)
  qed
qed

theorem create_book_duplicate_isbn_witness:
  "\<lparr>bid = 1, title = Some ''Python Crash Course'', year = Some 2019,
     isbn = Some ''978-1593279288'', created_at = Some 0, author_id = Some 1\<rparr>
     \<in> set (books (seeded 0)) \<and>
   create_book 5 (Some \<lparr>j_title = Val ''Second copy'', j_author_id = Val 2, j_year = Absent,
                        j_isbn = Val ''978-1593279288''\<rparr>) (seeded 0) =
     (Unhandled IntegrityError, seeded 0)"
proof -
  let ?b = "\<lparr>bid = 1, title = Some ''Python Crash Course'', year = Some 2019,
     isbn = Some ''978-1593279288'', created_at = Some (0::nat), author_id = Some 1\<rparr>"
  let ?d = "\<lparr>j_title = Val ''Second copy'', j_author_id = Val 2, j_year = Absent,
                        j_isbn = Val ''978-1593279288''\<rparr>"
  have m: "?b \<in> set (books (seeded 0))" by (simp add: seeded_store)
  have i: "isbn ?b = Some ''978-1593279288''" by simp
  have j: "dget (j_isbn ?d) = Some ''978-1593279288''" by simp
  have f: "find (\<lambda>a. Some (aid a) = dget (j_author_id ?d)) (authors (seeded 0)) \<noteq> None"
    by (simp add: seeded_store)
  from create_book_duplicate_isbn [OF m i j, of 5] f m show ?thesis
    by (simp add: prod_eq_iff)
qed

section \<open>The author filter of the search\<close>

text \<open>
  A string with a character that is no digit, no white space, no underscore and no sign
  is no integer for \<open>int\<close>.
\<close>

lemma py_digits_foreign:
  "c \<in> set cs \<Longrightarrow> \<not> is_digit c \<Longrightarrow> c \<noteq> CHR ''_'' \<Longrightarrow> py_digits acc cs = None"
  by (induction acc cs rule: py_digits.induct) auto

lemma py_unsigned_foreign:
  "c \<in> set cs \<Longrightarrow> \<not> is_digit c \<Longrightarrow> c \<noteq> CHR ''_'' \<Longrightarrow> py_unsigned cs = None"
  by (cases cs) (auto intro: py_digits_foreign)

lemma py_signed_foreign:
  assumes "c \<in> set cs" "\<not> is_digit c" "c \<noteq> CHR ''_''" "c \<noteq> CHR ''+''" "c \<noteq> CHR ''-''"
  shows "py_signed cs = None"
proof (cases cs)
  case Nil
  then show ?thesis by simp
next
  case (Cons x xs)
  have whole: "py_unsigned (x # xs) = None"
    using assms(1) Cons by (intro py_unsigned_foreign [OF _ assms(2,3)]) simp
  show ?thesis
  proof (cases "x = CHR ''-'' \<or> x = CHR ''+''")
    case True
    then have "c \<in> set xs" using assms(1,4,5) Cons by auto
    then have "py_unsigned xs = None" by (rule py_unsigned_foreign [OF _ assms(2,3)])
    then show ?thesis using Cons True by auto
  next
    case False
    then show ?thesis using Cons whole by simp
  qed
qed

lemma strip_keeps:
  assumes c: "c \<in> set s" and n: "\<not> is_space c"
  shows "c \<in> set (strip s)"
proof -
  have d: "c \<in> set (dropWhile is_space xs)" if "c \<in> set xs" for xs
    using that n by (induction xs) auto
  from d [OF c] have "c \<in> set (rev (dropWhile is_space s))" by simp
  from d [OF this] show ?thesis by (simp add: strip_def)
qed

lemma py_int_foreign:
  assumes "c \<in> set s" "\<not> is_digit c" "\<not> is_space c"
    "c \<noteq> CHR ''_''" "c \<noteq> CHR ''+''" "c \<noteq> CHR ''-''"
  shows "py_int s = None"
  unfolding py_int_def
  by (rule py_signed_foreign
        [OF strip_keeps [OF assms(1) assms(3)] assms(2) assms(4) assms(5) assms(6)])

text \<open>
  C10. A search whose \<open>author_id\<close> parameter is a non-empty ASCII string that \<open>int\<close> does
  not accept ends in the \<open>ValueError\<close> of \<open>int(author_id)\<close>, whatever the title filter and
  the database are: no envelope is returned.
\<close>

theorem search_books_bad_author_id:
  assumes "a \<noteq> []" and "ascii a" and "py_int a = None"
  shows "search_books q (Some a) s = Unhandled ValueError"
  using assms by (simp add: search_books_def Let_def)

theorem search_books_bad_author_id_witness:
  "''abc'' \<noteq> [] \<and> ascii ''abc'' \<and> py_int ''abc'' = None \<and>
   search_books None (Some ''abc'') (seeded 0) = Unhandled ValueError"
proof -
  have n: "''abc'' \<noteq> []" by simp
  have a: "ascii ''abc''" by (simp add: ascii_def)
  have p: "py_int ''abc'' = None" by (simp add: py_int_def strip_def is_space_def is_digit_def)
  from search_books_bad_author_id [OF n a p] n a p show ?thesis by simp
qed

section \<open>Deleting an author\<close>

lemma find_member:
  "x \<in> set xs \<Longrightarrow> P x \<Longrightarrow> \<exists>y. find P xs = Some y \<and> P y \<and> y \<in> set xs"
  by (induction xs) auto

lemma find_filter_other:
  "i \<noteq> j \<Longrightarrow> find (\<lambda>r. k r = i) (filter (\<lambda>r. k r \<noteq> j) xs) = find (\<lambda>r. k r = i) xs"
  by (induction xs) auto

lemma find_filter_same: "find (\<lambda>r. k r = i) (filter (\<lambda>r. k r \<noteq> i) xs) = None"
  by (induction xs) auto

text \<open>
  C1, as the code has it. The deletion of an Author of the database (whose id the driver
  can bind) is one step from the database \<open>s\<close> to the database \<open>s'\<close>: it succeeds, and
  \<open>s'\<close> is \<open>s\<close> without the Author and without every Book whose \<open>author_id\<close> is the
  Author's id. In \<open>s'\<close> the Author is not found, no Book has that \<open>author_id\<close>, no Book
  with that \<open>author_id\<close> can be fetched, and every Book that is orphaned was orphaned
  before: the deletion orphans no Book, so a database without orphaned Books stays
  without them. A Book that was orphaned before the deletion is neither removed nor
  repaired by it.
\<close>

theorem delete_author_cascades:
  assumes "a \<in> set (authors s)" and "int64 (aid a)"
    and "delete_author (aid a) s = (r, s')"
  shows "r = Json 200 True (MessageBody ''Author and their books deleted'') \<and>
         authors s' = filter (\<lambda>x. aid x \<noteq> aid a) (authors s) \<and>
         books s' = filter (\<lambda>b. author_id b \<noteq> Some (aid a)) (books s) \<and>
         get_author (aid a) s' = Abort 404 \<and>
         (\<forall>b \<in> set (books s'). author_id b \<noteq> Some (aid a)) \<and>
         (\<forall>j d. get_book j s' = Json 200 True (BookBody d) \<longrightarrow> bd_author_id d \<noteq> Some (aid a)) \<and>
         (\<forall>b \<in> set (books s'). orphan s' b \<longrightarrow> orphan s b) \<and>
         ((\<forall>b \<in> set (books s). \<not> orphan s b) \<longrightarrow> (\<forall>b \<in> set (books s'). \<not> orphan s' b))"
proof -
  from find_member [of a "authors s" "\<lambda>x. aid x = aid a"] assms(1)
  obtain a' where f: "find (\<lambda>x. aid x = aid a) (authors s) = Some a'" and k: "aid a' = aid a"
    by auto
  have del: "delete_author (aid a) s =
      (Json 200 True (MessageBody ''Author and their books deleted''),
       s\<lparr>authors := filter (\<lambda>x. aid x \<noteq> aid a) (authors s),
         books := filter (\<lambda>b. author_id b \<noteq> Some (aid a)) (books s)\<rparr>)"
    using f k assms(2)
    by (simp add: delete_author_def author_get_or_404_def get_author_row_def
        delete_author_cascade_def)
  with assms(3) have r: "r = Json 200 True (MessageBody ''Author and their books deleted'')"
    and au: "authors s' = filter (\<lambda>x. aid x \<noteq> aid a) (authors s)"
    and bo: "books s' = filter (\<lambda>b. author_id b \<noteq> Some (aid a)) (books s)"
    by auto
  have gone: "get_author (aid a) s' = Abort 404"
    using assms(2)
    by (simp add: get_author_def author_get_or_404_def get_author_row_def au find_filter_same)
  have none: "\<forall>b \<in> set (books s'). author_id b \<noteq> Some (aid a)"
    by (simp add: bo)
  have fetch: "\<forall>j d. get_book j s' = Json 200 True (BookBody d) \<longrightarrow>
      bd_author_id d \<noteq> Some (aid a)"
  proof (intro allI impI)
    fix j d assume g: "get_book j s' = Json 200 True (BookBody d)"
    then obtain b where fb: "find (\<lambda>b. bid b = j) (books s') = Some b" and d: "d = book_to_dict b"
      by (auto simp: get_book_def book_get_or_404_def get_book_row_def
          split: if_splits option.splits)
    from fb have "b \<in> set (books s')" by (auto simp: find_Some_iff)
    with none have "author_id b \<noteq> Some (aid a)" by blast
    then show "bd_author_id d \<noteq> Some (aid a)" by (simp add: d book_to_dict_def)
  qed
  have keep: "\<forall>b \<in> set (books s'). orphan s' b \<longrightarrow> orphan s b"
  proof (intro ballI impI)
    fix b assume b: "b \<in> set (books s')" and o: "orphan s' b"
    show "orphan s b"
    proof (cases "author_id b")
      case None
      then show ?thesis by (simp add: orphan_def)
    next
      case (Some i)
      with none b have "i \<noteq> aid a" by auto
      with o Some show ?thesis by (simp add: orphan_def au find_filter_other)
    qed
  qed
  have inv: "(\<forall>b \<in> set (books s). \<not> orphan s b) \<longrightarrow> (\<forall>b \<in> set (books s'). \<not> orphan s' b)"
    using keep bo by auto
  from r au bo gone none fetch keep inv show ?thesis by blast
qed

theorem delete_author_cascades_witness:
  "\<lparr>aid = 1, name = Some ''Eric Matthes'', bio = Some ''Python Expert'',
     city = Some ''Chicago''\<rparr> \<in> set (authors (seeded 0)) \<and>
   int64 1 \<and>
   delete_author 1 (seeded 0) =
     (Json 200 True (MessageBody ''Author and their books deleted''),
      \<lparr>authors =
         [\<lparr>aid = 2, name = Some ''Miguel Grinberg'', bio = Some ''Flask Guru'',
           city = Some ''Dublin''\<rparr>],
       books =
         [\<lparr>bid = 2, title = Some ''Flask Web Development'', year = Some 2018,
           isbn = Some ''978-1491991732'', created_at = Some 0, author_id = Some 2\<rparr>]\<rparr>) \<and>
   get_author 1
     \<lparr>authors =
        [\<lparr>aid = 2, name = Some ''Miguel Grinberg'', bio = Some ''Flask Guru'',
          city = Some ''Dublin''\<rparr>],
      books =
        [\<lparr>bid = 2, title = Some ''Flask Web Development'', year = Some 2018,
          isbn = Some ''978-1491991732'', created_at = Some 0, author_id = Some 2\<rparr>]\<rparr> =
     Abort 404"
proof -
  let ?a = "\<lparr>aid = 1, name = Some ''Eric Matthes'', bio = Some ''Python Expert'',
     city = Some ''Chicago''\<rparr>"
  let ?s' = "\<lparr>authors =
         [\<lparr>aid = 2, name = Some ''Miguel Grinberg'', bio = Some ''Flask Guru'',
           city = Some ''Dublin''\<rparr>],
       books =
         [\<lparr>bid = 2, title = Some ''Flask Web Development'', year = Some 2018,
           isbn = Some ''978-1491991732'', created_at = Some (0::nat), author_id = Some 2\<rparr>]\<rparr>"
  have m: "?a \<in> set (authors (seeded 0))" by (simp add: seeded_store)
  have i: "int64 (aid ?a)" by simp
  have d: "delete_author (aid ?a) (seeded 0) =
     (Json 200 True (MessageBody ''Author and their books deleted''), ?s')"
    by (simp add: seeded_store delete_author_def author_get_or_404_def get_author_row_def
        delete_author_cascade_def)
  from delete_author_cascades [OF m i d] have "get_author (aid ?a) ?s' = Abort 404"
    by blast
  with m d show ?thesis by simp
qed

text \<open>
  C1 as the specification states it fails: a Book that was orphaned before the deletion
  is still there after it. On the sample data, the update of book 2 with the body
  \<open>{author_id: 99}\<close> answers 200; the deletion of author 1 then answers 200 and removes
  author 1 and book 1, and book 2, whose \<open>author_id\<close> 99 is no Author's id, remains.
\<close>

theorem delete_author_orphan_counterexample:
  "update_book 2 (Some \<lparr>j_title = Absent, j_author_id = Val 99, j_year = Absent,
                        j_isbn = Absent\<rparr>) (seeded 0) =
     (Json 200 True
        (BookBody \<lparr>bd_id = 2, bd_title = Some ''Flask Web Development'',
                   bd_author_id = Some 99, bd_year = Some 2018,
                   bd_isbn = Some ''978-1491991732'', bd_created_at = Some 0\<rparr>),
      \<lparr>authors = authors (seeded 0),
       books =
         [\<lparr>bid = 1, title = Some ''Python Crash Course'', year = Some 2019,
           isbn = Some ''978-1593279288'', created_at = Some 0, author_id = Some 1\<rparr>,
          \<lparr>bid = 2, title = Some ''Flask Web Development'', year = Some 2018,
           isbn = Some ''978-1491991732'', created_at = Some 0, author_id = Some 99\<rparr>]\<rparr>) \<and>
   delete_author 1
     \<lparr>authors = authors (seeded 0),
      books =
        [\<lparr>bid = 1, title = Some ''Python Crash Course'', year = Some 2019,
          isbn = Some ''978-1593279288'', created_at = Some 0, author_id = Some 1\<rparr>,
         \<lparr>bid = 2, title = Some ''Flask Web Development'', year = Some 2018,
          isbn = Some ''978-1491991732'', created_at = Some 0, author_id = Some 99\<rparr>]\<rparr> =
     (Json 200 True (MessageBody ''Author and their books deleted''),
      \<lparr>authors =
         [\<lparr>aid = 2, name = Some ''Miguel Grinberg'', bio = Some ''Flask Guru'',
           city = Some ''Dublin''\<rparr>],
       books =
         [\<lparr>bid = 2, title = Some ''Flask Web Development'', year = Some 2018,
           isbn = Some ''978-1491991732'', created_at = Some 0, author_id = Some 99\<rparr>]\<rparr>) \<and>
   orphan
     \<lparr>authors =
        [\<lparr>aid = 2, name = Some ''Miguel Grinberg'', bio = Some ''Flask Guru'',
          city = Some ''Dublin''\<rparr>],
      books =
        [\<lparr>bid = 2, title = Some ''Flask Web Development'', year = Some 2018,
          isbn = Some ''978-1491991732'', created_at = Some 0, author_id = Some 99\<rparr>]\<rparr>
     \<lparr>bid = 2, title = Some ''Flask Web Development'', year = Some 2018,
      isbn = Some ''978-1491991732'', created_at = Some 0, author_id = Some 99\<rparr>"
proof -
  have u: "update_book 2 (Some \<lparr>j_title = Absent, j_author_id = Val 99, j_year = Absent,
                        j_isbn = Absent\<rparr>) (seeded 0) =
     (Json 200 True
        (BookBody \<lparr>bd_id = 2, bd_title = Some ''Flask Web Development'',
                   bd_author_id = Some 99, bd_year = Some 2018,
                   bd_isbn = Some ''978-1491991732'', bd_created_at = Some 0\<rparr>),
      \<lparr>authors = authors (seeded 0),
       books =
         [\<lparr>bid = 1, title = Some ''Python Crash Course'', year = Some 2019,
           isbn = Some ''978-1593279288'', created_at = Some 0, author_id = Some 1\<rparr>,
          \<lparr>bid = 2, title = Some ''Flask Web Development'', year = Some 2018,
           isbn = Some ''978-1491991732'', created_at = Some 0, author_id = Some 99\<rparr>]\<rparr>)"
    by (simp add: seeded_store update_book_def book_get_or_404_def get_book_row_def
        assign_book_def flush_book_def book_bindable_def book_row_ok_def book_to_dict_def
        int64_def Let_def)
  have d: "delete_author 1
     \<lparr>authors = authors (seeded 0),
      books =
        [\<lparr>bid = 1, title = Some ''Python Crash Course'', year = Some 2019,
          isbn = Some ''978-1593279288'', created_at = Some 0, author_id = Some 1\<rparr>,
         \<lparr>bid = 2, title = Some ''Flask Web Development'', year = Some 2018,
          isbn = Some ''978-1491991732'', created_at = Some 0, author_id = Some 99\<rparr>]\<rparr> =
     (Json 200 True (MessageBody ''Author and their books deleted''),
      \<lparr>authors =
         [\<lparr>aid = 2, name = Some ''Miguel Grinberg'', bio = Some ''Flask Guru'',
           city = Some ''Dublin''\<rparr>],
       books =
         [\<lparr>bid = 2, title = Some ''Flask Web Development'', year = Some 2018,
           isbn = Some ''978-1491991732'', created_at = Some 0, author_id = Some 99\<rparr>]\<rparr>)"
    by (simp add: seeded_store delete_author_def author_get_or_404_def get_author_row_def
        delete_author_cascade_def)
  have o: "orphan
     \<lparr>authors =
        [\<lparr>aid = 2, name = Some ''Miguel Grinberg'', bio = Some ''Flask Guru'',
          city = Some ''Dublin''\<rparr>],
      books =
        [\<lparr>bid = 2, title = Some ''Flask Web Development'', year = Some 2018,
          isbn = Some ''978-1491991732'', created_at = Some 0, author_id = Some 99\<rparr>]\<rparr>
     \<lparr>bid = 2, title = Some ''Flask Web Development'', year = Some 2018,
      isbn = Some ''978-1491991732'', created_at = Some 0, author_id = Some 99\<rparr>"
    by (simp add: orphan_def)
  from u d o show ?thesis by (intro conjI)
qed

section \<open>Partial updates\<close>

lemma find_key: "find (\<lambda>r. k r = i) xs = Some x \<Longrightarrow> k x = i"
  by (auto simp: find_Some_iff)

lemma find_replace:
  "find (\<lambda>r. k r = i) xs = Some x \<Longrightarrow> k y = i \<Longrightarrow>
   find (\<lambda>r. k r = i) (map (\<lambda>r. if k r = i then y else r) xs) = Some y"
  by (induction xs) (auto split: if_splits)

lemma filter_replace:
  "k y = i \<Longrightarrow>
   filter (\<lambda>r. k r \<noteq> i) (map (\<lambda>r. if k r = i then y else r) xs) = filter (\<lambda>r. k r \<noteq> i) xs"
  by (induction xs) auto

lemma keys_replace:
  "k y = i \<Longrightarrow> map k (map (\<lambda>r. if k r = i then y else r) xs) = map k xs"
  by (induction xs) auto

lemma assign_author_fields:
  "aid (assign_author d a) = aid a"
  "name (assign_author d a) = (if present (j_name d) then dget (j_name d) else name a)"
  "bio (assign_author d a) = (if present (j_bio d) then dget (j_bio d) else bio a)"
  "city (assign_author d a) = (if present (j_city d) then dget (j_city d) else city a)"
  by (simp_all add: assign_author_def Let_def)

lemma assign_book_fields:
  "bid (assign_book d b) = bid b"
  "created_at (assign_book d b) = created_at b"
  "title (assign_book d b) = (if present (j_title d) then dget (j_title d) else title b)"
  "author_id (assign_book d b) =
     (if present (j_author_id d) then dget (j_author_id d) else author_id b)"
  "year (assign_book d b) = (if present (j_year d) then dget (j_year d) else year b)"
  "isbn (assign_book d b) = (if present (j_isbn d) then dget (j_isbn d) else isbn b)"
  by (simp_all add: assign_book_def Let_def)

text \<open>
  An update of an existing row either leaves the database as it is (nothing to write, or
  an exception) or answers 200 and writes the assigned object over the row.
\<close>

lemma update_author_cases:
  assumes "int64 i" and "find (\<lambda>r. aid r = i) (authors s) = Some a"
    and "update_author i (Some d) s = (r, s')"
  shows "(s' = s \<and> (status_of r = Some 200 \<longrightarrow> assign_author d a = a)) \<or>
         (status_of r = Some 200 \<and>
          s' = s\<lparr>authors := map (\<lambda>r. if aid r = i then assign_author d a else r) (authors s)\<rparr>)"
  using assms find_key [OF assms(2)]
  by (auto simp: update_author_def author_get_or_404_def get_author_row_def flush_author_def
      assign_author_fields Let_def split: if_splits)

lemma update_book_cases:
  assumes "int64 i" and "find (\<lambda>r. bid r = i) (books s) = Some b"
    and "update_book i (Some d) s = (r, s')"
  shows "(s' = s \<and> (status_of r = Some 200 \<longrightarrow> assign_book d b = b)) \<or>
         (status_of r = Some 200 \<and>
          s' = s\<lparr>books := map (\<lambda>r. if bid r = i then assign_book d b else r) (books s)\<rparr>)"
  using assms find_key [OF assms(2)]
  by (auto simp: update_book_def book_get_or_404_def get_book_row_def flush_book_def
      assign_book_fields Let_def split: if_splits)

lemma update_author_frame:
  assumes "int64 i" and f: "find (\<lambda>r. aid r = i) (authors s) = Some a"
    and u: "update_author i (Some d) s = (r, s')"
  shows "(\<exists>a'. find (\<lambda>r. aid r = i) (authors s') = Some a' \<and> aid a' = aid a \<and>
           (\<not> present (j_name d) \<longrightarrow> name a' = name a) \<and>
           (\<not> present (j_bio d) \<longrightarrow> bio a' = bio a) \<and>
           (\<not> present (j_city d) \<longrightarrow> city a' = city a) \<and>
           (status_of r = Some 200 \<longrightarrow>
              (present (j_name d) \<longrightarrow> name a' = dget (j_name d)) \<and>
              (present (j_bio d) \<longrightarrow> bio a' = dget (j_bio d)) \<and>
              (present (j_city d) \<longrightarrow> city a' = dget (j_city d)))) \<and>
         filter (\<lambda>r. aid r \<noteq> i) (authors s') = filter (\<lambda>r. aid r \<noteq> i) (authors s) \<and>
         map aid (authors s') = map aid (authors s) \<and> books s' = books s"
proof -
  let ?a = "assign_author d a"
  have k: "aid ?a = i" using find_key [OF f] by (simp add: assign_author_fields)
  from update_author_cases [OF assms] consider
    (same) "s' = s" "status_of r = Some 200 \<longrightarrow> ?a = a"
    | (upd) "status_of r = Some 200"
       "s' = s\<lparr>authors := map (\<lambda>r. if aid r = i then ?a else r) (authors s)\<rparr>"
    by blast
  then show ?thesis
  proof cases
    case same
    have "(present (j_name d) \<longrightarrow> name a = dget (j_name d)) \<and>
          (present (j_bio d) \<longrightarrow> bio a = dget (j_bio d)) \<and>
          (present (j_city d) \<longrightarrow> city a = dget (j_city d))" if "status_of r = Some 200"
    proof -
      from that same(2) have e: "?a = a" by simp
      from assign_author_fields(2-4) [of d a] show ?thesis
        unfolding e by (auto split: if_splits)
    qed
    with f same(1) show ?thesis by simp
  next
    case upd
    have "find (\<lambda>r. aid r = i) (authors s') = Some ?a"
      using find_replace [of aid i "authors s" a ?a, OF f k] upd(2) by simp
    moreover have "filter (\<lambda>r. aid r \<noteq> i) (authors s') = filter (\<lambda>r. aid r \<noteq> i) (authors s)"
      using filter_replace [of aid ?a i "authors s", OF k] upd(2) by simp
    moreover have "map aid (authors s') = map aid (authors s)"
      using keys_replace [of aid ?a i "authors s", OF k] upd(2) by simp
    moreover have "books s' = books s" using upd(2) by simp
    ultimately show ?thesis by (simp add: assign_author_fields)
  qed
qed

lemma update_book_frame:
  assumes "int64 i" and f: "find (\<lambda>r. bid r = i) (books s) = Some b"
    and u: "update_book i (Some d) s = (r, s')"
  shows "(\<exists>b'. find (\<lambda>r. bid r = i) (books s') = Some b' \<and> bid b' = bid b \<and>
           created_at b' = created_at b \<and>
           (\<not> present (j_title d) \<longrightarrow> title b' = title b) \<and>
           (\<not> present (j_author_id d) \<longrightarrow> author_id b' = author_id b) \<and>
           (\<not> present (j_year d) \<longrightarrow> year b' = year b) \<and>
           (\<not> present (j_isbn d) \<longrightarrow> isbn b' = isbn b) \<and>
           (status_of r = Some 200 \<longrightarrow>
              (present (j_title d) \<longrightarrow> title b' = dget (j_title d)) \<and>
              (present (j_author_id d) \<longrightarrow> author_id b' = dget (j_author_id d)) \<and>
              (present (j_year d) \<longrightarrow> year b' = dget (j_year d)) \<and>
              (present (j_isbn d) \<longrightarrow> isbn b' = dget (j_isbn d)))) \<and>
         filter (\<lambda>r. bid r \<noteq> i) (books s') = filter (\<lambda>r. bid r \<noteq> i) (books s) \<and>
         map bid (books s') = map bid (books s) \<and> authors s' = authors s"
proof -
  let ?b = "assign_book d b"
  have k: "bid ?b = i" using find_key [OF f] by (simp add: assign_book_fields)
  from update_book_cases [OF assms] consider
    (same) "s' = s" "status_of r = Some 200 \<longrightarrow> ?b = b"
    | (upd) "status_of r = Some 200"
       "s' = s\<lparr>books := map (\<lambda>r. if bid r = i then ?b else r) (books s)\<rparr>"
    by blast
  then show ?thesis
  proof cases
    case same
    have "(present (j_title d) \<longrightarrow> title b = dget (j_title d)) \<and>
          (present (j_author_id d) \<longrightarrow> author_id b = dget (j_author_id d)) \<and>
          (present (j_year d) \<longrightarrow> year b = dget (j_year d)) \<and>
          (present (j_isbn d) \<longrightarrow> isbn b = dget (j_isbn d))" if "status_of r = Some 200"
    proof -
      from that same(2) have e: "?b = b" by simp
      from assign_book_fields(3-6) [of d b] show ?thesis
        unfolding e by (auto split: if_splits)
    qed
    with f same(1) show ?thesis by simp
  next
    case upd
    have "find (\<lambda>r. bid r = i) (books s') = Some ?b"
      using find_replace [of bid i "books s" b ?b, OF f k] upd(2) by simp
    moreover have "filter (\<lambda>r. bid r \<noteq> i) (books s') = filter (\<lambda>r. bid r \<noteq> i) (books s)"
      using filter_replace [of bid ?b i "books s", OF k] upd(2) by simp
    moreover have "map bid (books s') = map bid (books s)"
      using keys_replace [of bid ?b i "books s", OF k] upd(2) by simp
    moreover have "authors s' = authors s" using upd(2) by simp
    ultimately show ?thesis by (simp add: assign_book_fields)
  qed
qed

text \<open>
  C5. An update of an existing Author or Book with a dict as body, from the database
  \<open>s\<close> to \<open>s'\<close>: the row with that id is still there with its id (and, for a Book, its
  \<open>created_at\<close>), and each of its fields whose key is not in the body has the value it
  had. When the answer is 200, each field whose key is in the body has the body's value.
  The rows with another id, the order of the rows and the other table are as they were.
  The body \<open>{year: 2023}\<close> for a Book is the witness: title, isbn and \<open>author_id\<close> stay.
\<close>

theorem update_changes_only_present_fields:
  assumes "int64 i"
  shows "(find (\<lambda>r. aid r = i) (authors s) = Some a \<and>
          update_author i (Some ad) s = (ra, sa) \<longrightarrow>
            (\<exists>a'. find (\<lambda>r. aid r = i) (authors sa) = Some a' \<and> aid a' = aid a \<and>
               (\<not> present (j_name ad) \<longrightarrow> name a' = name a) \<and>
               (\<not> present (j_bio ad) \<longrightarrow> bio a' = bio a) \<and>
               (\<not> present (j_city ad) \<longrightarrow> city a' = city a) \<and>
               (status_of ra = Some 200 \<longrightarrow>
                  (present (j_name ad) \<longrightarrow> name a' = dget (j_name ad)) \<and>
                  (present (j_bio ad) \<longrightarrow> bio a' = dget (j_bio ad)) \<and>
                  (present (j_city ad) \<longrightarrow> city a' = dget (j_city ad)))) \<and>
            filter (\<lambda>r. aid r \<noteq> i) (authors sa) = filter (\<lambda>r. aid r \<noteq> i) (authors s) \<and>
            map aid (authors sa) = map aid (authors s) \<and> books sa = books s) \<and>
         (find (\<lambda>r. bid r = i) (books s) = Some b \<and>
          update_book i (Some bd) s = (rb, sb) \<longrightarrow>
            (\<exists>b'. find (\<lambda>r. bid r = i) (books sb) = Some b' \<and> bid b' = bid b \<and>
               created_at b' = created_at b \<and>
               (\<not> present (j_title bd) \<longrightarrow> title b' = title b) \<and>
               (\<not> present (j_author_id bd) \<longrightarrow> author_id b' = author_id b) \<and>
               (\<not> present (j_year bd) \<longrightarrow> year b' = year b) \<and>
               (\<not> present (j_isbn bd) \<longrightarrow> isbn b' = isbn b) \<and>
               (status_of rb = Some 200 \<longrightarrow>
                  (present (j_title bd) \<longrightarrow> title b' = dget (j_title bd)) \<and>
                  (present (j_author_id bd) \<longrightarrow> author_id b' = dget (j_author_id bd)) \<and>
                  (present (j_year bd) \<longrightarrow> year b' = dget (j_year bd)) \<and>
                  (present (j_isbn bd) \<longrightarrow> isbn b' = dget (j_isbn bd)))) \<and>
            filter (\<lambda>r. bid r \<noteq> i) (books sb) = filter (\<lambda>r. bid r \<noteq> i) (books s) \<and>
            map bid (books sb) = map bid (books s) \<and> authors sb = authors s)"
proof (intro conjI impI)
  assume "find (\<lambda>r. aid r = i) (authors s) = Some a \<and> update_author i (Some ad) s = (ra, sa)"
  then have f: "find (\<lambda>r. aid r = i) (authors s) = Some a"
    and u: "update_author i (Some ad) s = (ra, sa)"
    by simp_all
  from update_author_frame [OF assms f u] show
    "\<exists>a'. find (\<lambda>r. aid r = i) (authors sa) = Some a' \<and> aid a' = aid a \<and>
       (\<not> present (j_name ad) \<longrightarrow> name a' = name a) \<and>
       (\<not> present (j_bio ad) \<longrightarrow> bio a' = bio a) \<and>
       (\<not> present (j_city ad) \<longrightarrow> city a' = city a) \<and>
       (status_of ra = Some 200 \<longrightarrow>
          (present (j_name ad) \<longrightarrow> name a' = dget (j_name ad)) \<and>
          (present (j_bio ad) \<longrightarrow> bio a' = dget (j_bio ad)) \<and>
          (present (j_city ad) \<longrightarrow> city a' = dget (j_city ad)))"
    and "filter (\<lambda>r. aid r \<noteq> i) (authors sa) = filter (\<lambda>r. aid r \<noteq> i) (authors s)"
    and "map aid (authors sa) = map aid (authors s)"
    and "books sa = books s"
    by blast+
next
  assume "find (\<lambda>r. bid r = i) (books s) = Some b \<and> update_book i (Some bd) s = (rb, sb)"
  then have f: "find (\<lambda>r. bid r = i) (books s) = Some b"
    and u: "update_book i (Some bd) s = (rb, sb)"
    by simp_all
  from update_book_frame [OF assms f u] show
    "\<exists>b'. find (\<lambda>r. bid r = i) (books sb) = Some b' \<and> bid b' = bid b \<and>
       created_at b' = created_at b \<and>
       (\<not> present (j_title bd) \<longrightarrow> title b' = title b) \<and>
       (\<not> present (j_author_id bd) \<longrightarrow> author_id b' = author_id b) \<and>
       (\<not> present (j_year bd) \<longrightarrow> year b' = year b) \<and>
       (\<not> present (j_isbn bd) \<longrightarrow> isbn b' = isbn b) \<and>
       (status_of rb = Some 200 \<longrightarrow>
          (present (j_title bd) \<longrightarrow> title b' = dget (j_title bd)) \<and>
          (present (j_author_id bd) \<longrightarrow> author_id b' = dget (j_author_id bd)) \<and>
          (present (j_year bd) \<longrightarrow> year b' = dget (j_year bd)) \<and>
          (present (j_isbn bd) \<longrightarrow> isbn b' = dget (j_isbn bd)))"
    and "filter (\<lambda>r. bid r \<noteq> i) (books sb) = filter (\<lambda>r. bid r \<noteq> i) (books s)"
    and "map bid (books sb) = map bid (books s)"
    and "authors sb = authors s"
    by blast+
qed

theorem update_changes_only_present_fields_witness:
  "int64 1 \<and>
   find (\<lambda>r. aid r = 1) (authors (seeded 0)) =
     Some \<lparr>aid = 1, name = Some ''Eric Matthes'', bio = Some ''Python Expert'',
           city = Some ''Chicago''\<rparr> \<and>
   update_author 1 (Some \<lparr>j_name = Absent, j_bio = Val ''Teacher'', j_city = Absent\<rparr>)
       (seeded 0) =
     (Json 200 True
        (AuthorBody \<lparr>ad_id = 1, ad_name = Some ''Eric Matthes'', ad_bio = Some ''Teacher'',
                     ad_city = Some ''Chicago'', ad_books = [Some ''Python Crash Course'']\<rparr>),
      \<lparr>authors =
         [\<lparr>aid = 1, name = Some ''Eric Matthes'', bio = Some ''Teacher'',
           city = Some ''Chicago''\<rparr>,
          \<lparr>aid = 2, name = Some ''Miguel Grinberg'', bio = Some ''Flask Guru'',
           city = Some ''Dublin''\<rparr>],
       books = books (seeded 0)\<rparr>) \<and>
   find (\<lambda>r. bid r = 1) (books (seeded 0)) =
     Some \<lparr>bid = 1, title = Some ''Python Crash Course'', year = Some 2019,
           isbn = Some ''978-1593279288'', created_at = Some 0, author_id = Some 1\<rparr> \<and>
   update_book 1 (Some \<lparr>j_title = Absent, j_author_id = Absent, j_year = Val 2023,
                        j_isbn = Absent\<rparr>) (seeded 0) =
     (Json 200 True
        (BookBody \<lparr>bd_id = 1, bd_title = Some ''Python Crash Course'', bd_author_id = Some 1,
                   bd_year = Some 2023, bd_isbn = Some ''978-1593279288'',
                   bd_created_at = Some 0\<rparr>),
      \<lparr>authors = authors (seeded 0),
       books =
         [\<lparr>bid = 1, title = Some ''Python Crash Course'', year = Some 2023,
           isbn = Some ''978-1593279288'', created_at = Some 0, author_id = Some 1\<rparr>,
          \<lparr>bid = 2, title = Some ''Flask Web Development'', year = Some 2018,
           isbn = Some ''978-1491991732'', created_at = Some 0, author_id = Some 2\<rparr>]\<rparr>) \<and>
   (\<exists>b'. find (\<lambda>r. bid r = 1)
            (books (snd (update_book 1
               (Some \<lparr>j_title = Absent, j_author_id = Absent, j_year = Val 2023,
                      j_isbn = Absent\<rparr>) (seeded 0)))) = Some b' \<and>
         title b' = Some ''Python Crash Course'' \<and> isbn b' = Some ''978-1593279288'' \<and>
         author_id b' = Some 1 \<and> year b' = Some 2023) \<and>
   (\<exists>a'. find (\<lambda>r. aid r = 1)
            (authors (snd (update_author 1
               (Some \<lparr>j_name = Absent, j_bio = Val ''Teacher'', j_city = Absent\<rparr>)
               (seeded 0)))) = Some a' \<and>
         name a' = Some ''Eric Matthes'' \<and> city a' = Some ''Chicago'' \<and>
         bio a' = Some ''Teacher'')"
proof -
  let ?a = "\<lparr>aid = 1, name = Some ''Eric Matthes'', bio = Some ''Python Expert'',
           city = Some ''Chicago''\<rparr>"
  let ?b = "\<lparr>bid = 1, title = Some ''Python Crash Course'', year = Some 2019,
           isbn = Some ''978-1593279288'', created_at = Some (0::nat), author_id = Some 1\<rparr>"
  let ?ad = "\<lparr>j_name = Absent, j_bio = Val ''Teacher'', j_city = Absent\<rparr>"
  let ?bd = "\<lparr>j_title = Absent, j_author_id = Absent, j_year = Val 2023, j_isbn = Absent\<rparr>"
  let ?ra = "Json 200 True
        (AuthorBody \<lparr>ad_id = 1, ad_name = Some ''Eric Matthes'', ad_bio = Some ''Teacher'',
                     ad_city = Some ''Chicago'', ad_books = [Some ''Python Crash Course'']\<rparr>)"
  let ?sa = "\<lparr>authors =
         [\<lparr>aid = 1, name = Some ''Eric Matthes'', bio = Some ''Teacher'',
           city = Some ''Chicago''\<rparr>,
          \<lparr>aid = 2, name = Some ''Miguel Grinberg'', bio = Some ''Flask Guru'',
           city = Some ''Dublin''\<rparr>],
       books = books (seeded 0)\<rparr>"
  let ?rb = "Json 200 True
        (BookBody \<lparr>bd_id = 1, bd_title = Some ''Python Crash Course'', bd_author_id = Some 1,
                   bd_year = Some 2023, bd_isbn = Some ''978-1593279288'',
                   bd_created_at = Some 0\<rparr>)"
  let ?sb = "\<lparr>authors = authors (seeded 0),
       books =
         [\<lparr>bid = 1, title = Some ''Python Crash Course'', year = Some 2023,
           isbn = Some ''978-1593279288'', created_at = Some (0::nat), author_id = Some 1\<rparr>,
          \<lparr>bid = 2, title = Some ''Flask Web Development'', year = Some 2018,
           isbn = Some ''978-1491991732'', created_at = Some 0, author_id = Some 2\<rparr>]\<rparr>"
  have i: "int64 1" by simp
  have fa: "find (\<lambda>r. aid r = 1) (authors (seeded 0)) = Some ?a" by (simp add: seeded_store)
  have fb: "find (\<lambda>r. bid r = 1) (books (seeded 0)) = Some ?b" by (simp add: seeded_store)
  have ua: "update_author 1 (Some ?ad) (seeded 0) = (?ra, ?sa)"
    by (simp add: seeded_store update_author_def author_get_or_404_def get_author_row_def
        assign_author_def flush_author_def author_row_ok_def author_to_dict_def books_of_def
        Let_def)
  have ub: "update_book 1 (Some ?bd) (seeded 0) = (?rb, ?sb)"
    by (simp add: seeded_store update_book_def book_get_or_404_def get_book_row_def
        assign_book_def flush_book_def book_bindable_def book_row_ok_def book_to_dict_def
        int64_def Let_def)
  note t = update_changes_only_present_fields
      [OF i, of "seeded 0" ?a ?ad ?ra ?sa ?b ?bd ?rb ?sb]
  from t fa ua have "\<exists>a'. find (\<lambda>r. aid r = 1) (authors ?sa) = Some a' \<and>
      name a' = Some ''Eric Matthes'' \<and> city a' = Some ''Chicago'' \<and> bio a' = Some ''Teacher''"
    by auto
  moreover from t fb ub have "\<exists>b'. find (\<lambda>r. bid r = 1) (books ?sb) = Some b' \<and>
      title b' = Some ''Python Crash Course'' \<and> isbn b' = Some ''978-1593279288'' \<and>
      author_id b' = Some 1 \<and> year b' = Some 2023"
    by auto
  ultimately show ?thesis
    using i fa fb ua ub by simp
qed

section \<open>Reassigning a book to an author that does not exist\<close>

text \<open>
  C2 fails on the code. On the sample data, the update of book 1 with the body
  \<open>{author_id: 99}\<close> answers 200 and stores the Book with \<open>author_id\<close> 99, although no
  Author has the id 99: the Book is orphaned. \<open>update_book\<close> has no check of the author,
  and the database does not enforce the foreign key. \<open>create_book\<close> refuses the same
  \<open>author_id\<close> with 404.
\<close>

theorem update_book_dangling_author:
  "update_book 1 (Some \<lparr>j_title = Absent, j_author_id = Val 99, j_year = Absent,
                        j_isbn = Absent\<rparr>) (seeded 0) =
     (Json 200 True
        (BookBody \<lparr>bd_id = 1, bd_title = Some ''Python Crash Course'', bd_author_id = Some 99,
                   bd_year = Some 2019, bd_isbn = Some ''978-1593279288'',
                   bd_created_at = Some 0\<rparr>),
      \<lparr>authors = authors (seeded 0),
       books =
         [\<lparr>bid = 1, title = Some ''Python Crash Course'', year = Some 2019,
           isbn = Some ''978-1593279288'', created_at = Some 0, author_id = Some 99\<rparr>,
          \<lparr>bid = 2, title = Some ''Flask Web Development'', year = Some 2018,
           isbn = Some ''978-1491991732'', created_at = Some 0, author_id = Some 2\<rparr>]\<rparr>) \<and>
   get_author 99 (seeded 0) = Abort 404 \<and>
   orphan (snd (update_book 1 (Some \<lparr>j_title = Absent, j_author_id = Val 99,
                                      j_year = Absent, j_isbn = Absent\<rparr>) (seeded 0)))
     \<lparr>bid = 1, title = Some ''Python Crash Course'', year = Some 2019,
      isbn = Some ''978-1593279288'', created_at = Some 0, author_id = Some 99\<rparr>"
proof -
  have u: "update_book 1 (Some \<lparr>j_title = Absent, j_author_id = Val 99, j_year = Absent,
                        j_isbn = Absent\<rparr>) (seeded 0) =
     (Json 200 True
        (BookBody \<lparr>bd_id = 1, bd_title = Some ''Python Crash Course'', bd_author_id = Some 99,
                   bd_year = Some 2019, bd_isbn = Some ''978-1593279288'',
                   bd_created_at = Some 0\<rparr>),
      \<lparr>authors = authors (seeded 0),
       books =
         [\<lparr>bid = 1, title = Some ''Python Crash Course'', year = Some 2019,
           isbn = Some ''978-1593279288'', created_at = Some 0, author_id = Some 99\<rparr>,
          \<lparr>bid = 2, title = Some ''Flask Web Development'', year = Some 2018,
           isbn = Some ''978-1491991732'', created_at = Some 0, author_id = Some 2\<rparr>]\<rparr>)"
    by (simp add: seeded_store update_book_def book_get_or_404_def get_book_row_def
        assign_book_def flush_book_def book_bindable_def book_row_ok_def book_to_dict_def
        int64_def Let_def)
  have g: "get_author 99 (seeded 0) = Abort 404"
    by (simp add: seeded_store get_author_def author_get_or_404_def get_author_row_def)
  show ?thesis
    unfolding u using g by (simp add: orphan_def seeded_store)
qed

section \<open>The title filter of the search\<close>

lemma like_any: "like ''%'' t"
  by (induction t) auto

lemma like_prefix: "plain p \<Longrightarrow> like (p @ ''%'') t \<longleftrightarrow> prefix p t"
proof (induction p arbitrary: t)
  case Nil
  then show ?case using like_any by simp
next
  case (Cons x xs)
  then have "plain xs" and "x \<noteq> CHR ''%''" and "x \<noteq> CHR ''_''"
    by (auto simp: plain_def)
  with Cons.IH show ?case by (cases t) auto
qed

lemma like_contains: "plain p \<Longrightarrow> like (CHR ''%'' # p @ ''%'') t \<longleftrightarrow> sublist p t"
proof (induction t)
  case Nil
  then show ?case using like_prefix [of p "[]"] by simp
next
  case (Cons c cs)
  then show ?case using like_prefix [of p "c # cs"] by (simp add: sublist_Cons_right)
qed

lemma of_char_lower:
  "of_char (lower_char c) = (if 65 \<le> (of_char c :: nat) \<and> (of_char c :: nat) \<le> 90
     then of_char c + 32 else (of_char c :: nat))"
  by (simp add: lower_char_def Let_def)

lemma lower_char_percent: "lower_char c = CHR ''%'' \<longleftrightarrow> c = CHR ''%''"
proof
  assume "lower_char c = CHR ''%''"
  then have "(of_char (lower_char c) :: nat) = of_char CHR ''%''" by simp
  then have "(of_char c :: nat) = 37" by (simp add: of_char_lower split: if_splits)
  then have "(of_char c :: nat) = of_char CHR ''%''" by simp
  then show "c = CHR ''%''" by (simp only: of_char_eq_iff)
next
  assume "c = CHR ''%''"
  then show "lower_char c = CHR ''%''" by (simp add: lower_char_def)
qed

lemma lower_char_underscore: "lower_char c = CHR ''_'' \<longleftrightarrow> c = CHR ''_''"
proof
  assume "lower_char c = CHR ''_''"
  then have "(of_char (lower_char c) :: nat) = of_char CHR ''_''" by simp
  then have "(of_char c :: nat) = 95" by (simp add: of_char_lower split: if_splits)
  then have "(of_char c :: nat) = of_char CHR ''_''" by simp
  then show "c = CHR ''_''" by (simp only: of_char_eq_iff)
next
  assume "c = CHR ''_''"
  then show "lower_char c = CHR ''_''" by (simp add: lower_char_def)
qed

lemma set_lower: "x \<in> set (lower q) \<longleftrightarrow> (\<exists>c \<in> set q. lower_char c = x)"
  by (auto simp: lower_def)

lemma plain_lower: "plain (lower q) \<longleftrightarrow> plain q"
  by (simp add: plain_def set_lower lower_char_percent lower_char_underscore)

lemma lower_pattern: "lower (CHR ''%'' # q @ ''%'') = CHR ''%'' # lower q @ ''%''"
  by (simp add: lower_def lower_char_def)

text \<open>
  For a filter text without wild cards, the title filter of the view is the containment
  of the specification.
\<close>

lemma ilike_contains:
  "plain q \<Longrightarrow> ilike (title b) (CHR ''%'' # q @ ''%'') \<longleftrightarrow> title_contains q b"
proof (cases "title b")
  case None
  then show ?thesis by (simp add: title_contains_def)
next
  case (Some t)
  assume "plain q"
  then have "plain (lower q)" by (simp add: plain_lower)
  from like_contains [OF this, of "lower t"] Some show ?thesis
    by (simp add: title_contains_def lower_pattern)
qed

lemma title_contains_empty: "title b \<noteq> None \<Longrightarrow> title_contains [] b"
  by (auto simp: title_contains_def lower_def)

text \<open>
  The search of the view against the search of the specification: in a database whose
  titles are not NULL, for a title filter without wild cards and an author filter that
  \<open>int\<close> reads as the 64-bit integer \<open>n\<close>, the view answers with the Books of
  \<open>search_spec\<close> and their number.
\<close>

lemma search_books_refines:
  assumes titles: "list_all (\<lambda>b. title b \<noteq> None) (books s)"
    and q: "case q of None \<Rightarrow> True | Some t \<Rightarrow> plain t"
    and a: "case a of None \<Rightarrow> n = None
            | Some x \<Rightarrow> if x = [] then n = None
                        else py_int x = n \<and> n \<noteq> None \<and> int64_opt n"
  shows "search_books q a s =
           Json 200 True
             (BooksBody (length (search_spec q n s)) (map book_to_dict (search_spec q n s)))"
proof -
  define query1 where "query1 =
     (case q of None \<Rightarrow> books s
      | Some t \<Rightarrow> if t \<noteq> [] then filter (\<lambda>b. ilike (title b) (''%'' @ t @ ''%'')) (books s)
                  else books s)"
  have q1: "query1 = filter (\<lambda>b. case q of None \<Rightarrow> True | Some t \<Rightarrow> title_contains t b) (books s)"
  proof (cases q)
    case None
    then show ?thesis by (simp add: query1_def)
  next
    case (Some t)
    with q have p: "plain t" by simp
    show ?thesis
    proof (cases "t = []")
      case True
      have "filter (\<lambda>b. title_contains [] b) (books s) = books s"
        using titles by (auto simp: list_all_iff title_contains_empty intro: filter_True)
      with True Some show ?thesis by (simp add: query1_def)
    next
      case False
      with Some p show ?thesis by (simp add: query1_def ilike_contains)
    qed
  qed
  have unfold: "search_books q a s =
     (case a of
        None \<Rightarrow> Json 200 True (BooksBody (length query1) (map book_to_dict query1))
      | Some x \<Rightarrow>
          if x \<noteq> [] then
            (case py_int x of
               None \<Rightarrow> Unhandled ValueError
             | Some i \<Rightarrow>
                 if \<not> int64 i then Unhandled OverflowError
                 else
                   (let results = filter (\<lambda>b. author_id b = Some i) query1
                    in Json 200 True (BooksBody (length results) (map book_to_dict results))))
          else Json 200 True (BooksBody (length query1) (map book_to_dict query1)))"
    unfolding search_books_def query1_def Let_def by (rule refl)
  have none: "search_spec q None s = query1"
    by (simp add: search_spec_def q1)
  have some: "search_spec q (Some i) s = filter (\<lambda>b. author_id b = Some i) query1" for i
    by (simp add: search_spec_def q1 conj_commute)
  show ?thesis
  proof (cases a)
    case None
    with a have n: "n = None" by simp
    have "search_books q a s =
        Json 200 True (BooksBody (length query1) (map book_to_dict query1))"
      using unfold None by simp
    then show ?thesis by (simp add: n none)
  next
    case (Some x)
    show ?thesis
    proof (cases "x = []")
      case True
      with a Some have n: "n = None" by simp
      have "search_books q a s =
          Json 200 True (BooksBody (length query1) (map book_to_dict query1))"
        using unfold Some True by simp
      then show ?thesis by (simp add: n none)
    next
      case False
      with a Some obtain i where i: "py_int x = Some i" and n: "n = Some i" and r: "int64 i"
        by (cases n) auto
      have "search_books q a s =
          Json 200 True
            (BooksBody (length (filter (\<lambda>b. author_id b = Some i) query1))
               (map book_to_dict (filter (\<lambda>b. author_id b = Some i) query1)))"
        using unfold Some False i r by (simp add: Let_def)
      then show ?thesis by (simp add: n some)
    qed
  qed
qed

text \<open>
  C6 fails on the code. On the sample data the search for \<open>P_thon\<close> returns the Book
  "Python Crash Course", whose title does not contain \<open>p_thon\<close> in any case: the view
  puts the text of the request into the LIKE pattern as it is, so that an underscore or a
  percent sign of the request is a wild card.
\<close>

theorem search_books_wildcard:
  "search_books (Some ''P_thon'') None (seeded 0) =
     Json 200 True
       (BooksBody 1
          [\<lparr>bd_id = 1, bd_title = Some ''Python Crash Course'', bd_author_id = Some 1,
            bd_year = Some 2019, bd_isbn = Some ''978-1593279288'',
            bd_created_at = Some 0\<rparr>]) \<and>
   \<not> title_contains ''P_thon''
       \<lparr>bid = 1, title = Some ''Python Crash Course'', year = Some 2019,
        isbn = Some ''978-1593279288'', created_at = Some 0, author_id = Some 1\<rparr>"
proof -
  have "search_books (Some ''P_thon'') None (seeded 0) =
     Json 200 True
       (BooksBody 1
          [\<lparr>bd_id = 1, bd_title = Some ''Python Crash Course'', bd_author_id = Some 1,
            bd_year = Some 2019, bd_isbn = Some ''978-1593279288'',
            bd_created_at = Some 0\<rparr>])"
    by code_simp
  moreover have "\<not> title_contains ''P_thon''
       \<lparr>bid = 1, title = Some ''Python Crash Course'', year = Some 2019,
        isbn = Some ''978-1593279288'', created_at = Some 0, author_id = Some 1\<rparr>"
    by code_simp
  ultimately show ?thesis by simp
qed

end
